theory Spec2Isabelle
  imports Main
begin

section \<open>Data model of package service\<close>

text \<open>
  A Go \<open>error\<close> value is either nil or an error; it is modelled as \<open>error option\<close>
  with \<open>None\<close> for nil. The package's own errors are \<open>errEndpointNotSet\<close>,
  \<open>errTokenNotSet\<close>, \<open>errAlreadyListening{}\<close> and \<open>errNonExistentTask{name}\<close>;
  \<open>ContextCanceled\<close> is what \<open>Context.Err()\<close> reports once the context is done, and
  \<open>Foreign\<close> stands for any error produced by gRPC or the network.
\<close>

datatype error =
    ErrEndpointNotSet
  | ErrTokenNotSet
  | ErrAlreadyListening
  | ErrNonExistentTask string
  | ContextCanceled
  | Foreign string

definition endpointEnv :: string where
  "endpointEnv = ''MESG_ENDPOINT''"

definition tokenEnv :: string where
  "tokenEnv = ''MESG_TOKEN''"

text \<open>\<open>serviceapi.TaskData\<close>, the message received from the task stream.\<close>

record TaskData =
  ExecutionID :: string
  TaskKey :: string
  InputData :: string

text \<open>
  The \<open>Taskable\<close> interface: \<open>Key()\<close> and \<open>Execute(execution)\<close>. A handler either
  returns an output key with its data or panics (\<open>None\<close>).
\<close>

record Taskable =
  Key :: string
  Execute :: "TaskData \<Rightarrow> (string \<times> string) option"

datatype Dialer = Dialer nat

datatype DialOpt =
    WithKeepaliveParams int
  | WithInsecure
  | WithContextDialer Dialer

text \<open>\<open>*grpc.ClientConn\<close>: the dialled target and how often \<open>Close()\<close> was called on it.\<close>

record ClientConn =
  target :: string
  closes :: nat

datatype ServiceClient = NewServiceClient string

datatype Writer = Discard | Output nat

text \<open>The goroutines that can hold one of the two mutexes.\<close>

datatype tid = Listener nat | Closer nat

text \<open>
  \<open>context.CancelFunc\<close> of the context made in \<open>listenTasks\<close>; the field is \<open>None\<close>
  while it is nil.
\<close>

datatype CancelFunc = CancelCtx

text \<open>
  The struct \<open>Service\<close>. A mutex is \<open>None\<close> when free and names its holder otherwise;
  \<open>gracefulWait\<close> is the counter of the \<open>sync.WaitGroup\<close>; \<open>log\<close> holds what has been
  handed to \<open>s.log.Println\<close>; durations are in nanoseconds.
\<close>

record Service =
  endpoint :: string
  token :: string
  client :: "ServiceClient option"
  conn :: "ClientConn option"
  dialOptions :: "DialOpt list"
  callTimeout :: int
  cancel :: "CancelFunc option"
  closing :: bool
  mc :: "tid option"
  isListening :: bool
  ml :: "tid option"
  gracefulWait :: int
  taskables :: "Taskable list"
  log :: "error list"
  logOutput :: Writer

type_synonym Option = "Service \<Rightarrow> Service"

definition second :: int where
  "second = 1000000000"

definition minute :: int where
  "minute = 60 * second"

section \<open>Construction\<close>

definition EndpointOption :: "string \<Rightarrow> Option" where
  "EndpointOption address = (\<lambda>s. s\<lparr>endpoint := address\<rparr>)"

definition TokenOption :: "string \<Rightarrow> Option" where
  "TokenOption tok = (\<lambda>s. s\<lparr>token := tok\<rparr>)"

definition TimeoutOption :: "int \<Rightarrow> Option" where
  "TimeoutOption d = (\<lambda>s. s\<lparr>callTimeout := d\<rparr>)"

definition LogOutputOption :: "Writer \<Rightarrow> Option" where
  "LogOutputOption out = (\<lambda>s. s\<lparr>logOutput := out\<rparr>)"

definition DialOption :: "Dialer \<Rightarrow> Option" where
  "DialOption dialer = (\<lambda>s. s\<lparr>dialOptions := dialOptions s @ [WithContextDialer dialer]\<rparr>)"

text \<open>
  One call of \<open>grpc.DialContext(ctx, endpoint, dialOptions...)\<close>, with the timeout of
  its context. The network is a parameter: \<open>dial\<close> answers each request with an error or a
  connection.
\<close>

record dial_request =
  dial_timeout :: int
  dial_target :: string
  dial_opts :: "DialOpt list"

type_synonym network = "dial_request \<Rightarrow> error + ClientConn"

text \<open>
  \<open>setupServiceClient\<close> returns the updated service, the error, and the dial requests it
  made.
\<close>

definition setupServiceClient :: "network \<Rightarrow> Service \<Rightarrow> (Service \<times> error option) \<times> dial_request list" where
  "setupServiceClient dial s =
     (let req = \<lparr>dial_timeout = callTimeout s, dial_target = endpoint s, dial_opts = dialOptions s\<rparr>
      in case dial req of
           Inl err \<Rightarrow> ((s\<lparr>conn := None\<rparr>, Some err), [req])
         | Inr c \<Rightarrow> ((s\<lparr>conn := Some c, client := Some (NewServiceClient (target c))\<rparr>, None), [req]))"

text \<open>The service literal of \<open>New\<close>, read from the environment.\<close>

definition defaults :: "(string \<Rightarrow> string) \<Rightarrow> Service" where
  "defaults getenv =
     \<lparr>endpoint = getenv endpointEnv,
      token = getenv tokenEnv,
      client = None,
      conn = None,
      dialOptions = [WithKeepaliveParams (5 * minute), WithInsecure],
      callTimeout = second * 10,
      cancel = None,
      closing = False,
      mc = None,
      isListening = False,
      ml = None,
      gracefulWait = 0,
      taskables = [],
      log = [],
      logOutput = Discard\<rparr>"

text \<open>The loop \<open>for _, option := range options { option(s) }\<close>.\<close>

definition configure :: "(string \<Rightarrow> string) \<Rightarrow> Option list \<Rightarrow> Service" where
  "configure getenv options = foldl (\<lambda>s option. option s) (defaults getenv) options"

text \<open>
  \<open>New\<close> returns the pair \<open>(*Service, error)\<close> of the source (\<open>None\<close> is nil) and the
  dial requests made on the way.
\<close>

definition New :: "(string \<Rightarrow> string) \<Rightarrow> network \<Rightarrow> Option list
    \<Rightarrow> (Service option \<times> error option) \<times> dial_request list" where
  "New getenv dial options =
     (let s = configure getenv options in
      if endpoint s = [] then ((None, Some ErrEndpointNotSet), [])
      else if token s = [] then ((None, Some ErrTokenNotSet), [])
      else case setupServiceClient dial s of
             ((s', err), reqs) \<Rightarrow> ((Some s', err), reqs))"

text \<open>Concrete environments and networks for evaluation.\<close>

definition no_env :: "string \<Rightarrow> string" where
  "no_env name = []"

definition env_of :: "string \<Rightarrow> string \<Rightarrow> string \<Rightarrow> string" where
  "env_of e t name = (if name = endpointEnv then e else if name = tokenEnv then t else [])"

definition accept_dial :: network where
  "accept_dial req = Inr \<lparr>target = dial_target req, closes = 0\<rparr>"

definition refuse_dial :: network where
  "refuse_dial req = Inl (Foreign ''connection refused'')"

section \<open>Listening, executing and closing\<close>

text \<open>
  \<open>Listen\<close>, the two goroutines of \<open>listenTasks\<close>, the goroutines started by
  \<open>go s.executeTask(data)\<close> and \<open>Close\<close> run concurrently. The process is modelled by
  its shared state and one program counter per goroutine; an action lets one goroutine
  run its next statement, and a schedule (a list of actions) is one interleaving.
  What gRPC answers (the result of \<open>ListenTask\<close>, of \<open>stream.Recv\<close>, of
  \<open>execution.reply\<close>, of \<open>conn.Close\<close>) is carried by the action.
\<close>

text \<open>Where a caller of \<open>Listen\<close> stands; \<open>L_idle\<close> has not called.\<close>

datatype listen_pc =
    L_idle
  | L_start                 \<comment> \<open>called, before \<open>s.ml.Lock()\<close>\<close>
  | L_locked                \<comment> \<open>holds \<open>ml\<close>, before \<open>if s.isListening\<close>\<close>
  | L_reject                \<comment> \<open>\<open>s.isListening\<close> was true, before \<open>s.ml.Unlock()\<close>\<close>
  | L_rejected              \<comment> \<open>returned \<open>errAlreadyListening{}\<close>\<close>
  | L_enter                 \<comment> \<open>\<open>s.isListening\<close> was false, before \<open>s.isListening = true\<close>\<close>
  | L_flagged               \<comment> \<open>before the second \<open>s.ml.Unlock()\<close>\<close>
  | L_tasks                 \<comment> \<open>before the assignments to \<open>s.taskables\<close>\<close>
  | L_validate              \<comment> \<open>before \<open>s.validateTasks()\<close>\<close>
  | L_listen                \<comment> \<open>in \<open>listenTasks\<close>, before \<open>s.mc.Lock()\<close>\<close>
  | L_mc                    \<comment> \<open>holds \<open>mc\<close>, before \<open>ctx, s.cancel = context.WithCancel(...)\<close>\<close>
  | L_ctx                   \<comment> \<open>before \<open>s.mc.Unlock()\<close>\<close>
  | L_open                  \<comment> \<open>before \<open>s.client.ListenTask(ctx, ...)\<close>\<close>
  | L_opened                \<comment> \<open>\<open>errC\<close> made, before the first \<open>go\<close>\<close>
  | L_watched               \<comment> \<open>before the second \<open>go\<close>\<close>
  | L_wait                  \<comment> \<open>blocked in \<open>return <-errC\<close>\<close>
  | L_ret "error option"    \<comment> \<open>returned this value\<close>
  | L_panic                 \<comment> \<open>panicked on a nil \<open>s.client\<close>\<close>

text \<open>Where a caller of \<open>Close\<close> stands; \<open>C_idle\<close> is before \<open>s.mc.Lock()\<close>.\<close>

datatype close_pc =
    C_idle
  | C_locked                \<comment> \<open>holds \<open>mc\<close>, before \<open>s.closing = true\<close>\<close>
  | C_closing               \<comment> \<open>before \<open>s.cancel()\<close>\<close>
  | C_wait                  \<comment> \<open>before \<open>s.gracefulWait.Wait()\<close> returns\<close>
  | C_conn                  \<comment> \<open>before \<open>s.conn.Close()\<close>\<close>
  | C_unlock "error option" \<comment> \<open>result computed, before the deferred \<open>s.mc.Unlock()\<close>\<close>
  | C_ret "error option"    \<comment> \<open>returned this value\<close>
  | C_panic                 \<comment> \<open>panicked (nil \<open>s.cancel\<close> or nil \<open>s.conn\<close>), \<open>mc\<close> released\<close>

text \<open>The goroutine \<open><-stream.Context().Done(); errC <- stream.Context().Err()\<close>.\<close>

datatype watcher_pc =
    W_none
  | W_wait
  | W_send "error option"
  | W_exit

text \<open>The goroutine with the receive loop.\<close>

datatype loop_pc =
    R_none
  | R_add                   \<comment> \<open>before \<open>s.gracefulWait.Add(1)\<close>\<close>
  | R_recv                  \<comment> \<open>before \<open>stream.Recv()\<close> returns\<close>
  | R_go TaskData           \<comment> \<open>received, before \<open>go s.executeTask(data)\<close>\<close>
  | R_fail error            \<comment> \<open>receive failed, before \<open>s.gracefulWait.Done()\<close>\<close>
  | R_check error           \<comment> \<open>before \<open>if s.closing\<close>\<close>
  | R_send "error option"   \<comment> \<open>blocked in \<open>errC <- nil\<close> or \<open>errC <- err\<close>\<close>
  | R_exit

text \<open>
  The process. \<open>ctx_done\<close>: the context made in \<open>listenTasks\<close> has been cancelled.
  \<open>errC\<close>: the channel made in \<open>listenTasks\<close>, named by the caller that made it.
  \<open>stream_over\<close>: the RPC has ended by itself, which also ends the stream's context.
  \<open>spawned\<close>: the goroutines started by \<open>go s.executeTask(data)\<close>, each with its
  data and whether it has run to its end. \<open>replies\<close>: the calls of \<open>execution.reply\<close>.
  \<open>crashed\<close>: a goroutine panicked with nobody to recover.
\<close>

record process =
  svc :: Service
  listeners :: "nat \<Rightarrow> listen_pc"
  largs :: "nat \<Rightarrow> (Taskable \<times> Taskable list) option"
  closers :: "nat \<Rightarrow> close_pc"
  ctx_done :: bool
  errC :: "nat option"
  stream_over :: bool
  watcher :: watcher_pc
  loop :: loop_pc
  spawned :: "(TaskData \<times> bool) list"
  replies :: "(TaskData \<times> string \<times> string) list"
  crashed :: bool

definition start :: "Service \<Rightarrow> process" where
  "start s =
     \<lparr>svc = s,
      listeners = (\<lambda>t. L_idle),
      largs = (\<lambda>t. None),
      closers = (\<lambda>c. C_idle),
      ctx_done = False,
      errC = None,
      stream_over = False,
      watcher = W_none,
      loop = R_none,
      spawned = [],
      replies = [],
      crashed = False\<rparr>"

text \<open>\<open>validateTasks\<close> always returns nil.\<close>

definition validateTasks :: "Service \<Rightarrow> error option" where
  "validateTasks s = None"

text \<open>The first taskable whose key matches, or nil.\<close>

definition getTaskableByName :: "Service \<Rightarrow> string \<Rightarrow> Taskable option" where
  "getTaskableByName s key = find (\<lambda>taskable. Key taskable = key) (taskables s)"

text \<open>\<open>s.log.Println(err)\<close>.\<close>

definition Println :: "error \<Rightarrow> process \<Rightarrow> process" where
  "Println err p = p\<lparr>svc := (svc p)\<lparr>log := log (svc p) @ [err]\<rparr>\<rparr>"

text \<open>
  \<open>s.gracefulWait.Add(delta)\<close>; \<open>Done()\<close> is \<open>Add(-1)\<close>. A counter that becomes
  negative panics.
\<close>

definition wg_Add :: "int \<Rightarrow> process \<Rightarrow> process" where
  "wg_Add delta p =
     p\<lparr>svc := (svc p)\<lparr>gracefulWait := gracefulWait (svc p) + delta\<rparr>,
       crashed := (crashed p \<or> gracefulWait (svc p) + delta < 0)\<rparr>"

definition wg_Done :: "process \<Rightarrow> process" where
  "wg_Done p = wg_Add (- 1) p"

text \<open>What \<open>stream.Context().Err()\<close> returns.\<close>

definition stream_ctx_err :: "process \<Rightarrow> error option" where
  "stream_ctx_err p = (if ctx_done p \<or> stream_over p then Some ContextCanceled else None)"

text \<open>
  \<open>executeTask\<close>, run by its goroutine from start to end; \<open>reply_err\<close> is what
  \<open>execution.reply\<close> returns if it is called. The deferred \<open>Done()\<close> runs on every way
  out, also when the handler panics.
\<close>

definition executeTask :: "error option \<Rightarrow> TaskData \<Rightarrow> process \<Rightarrow> process" where
  "executeTask reply_err data p =
     wg_Done
       (case getTaskableByName (svc p) (TaskKey data) of
          None \<Rightarrow> Println (ErrNonExistentTask (TaskKey data)) p
        | Some taskable \<Rightarrow>
            (case Execute taskable data of
               None \<Rightarrow> p\<lparr>crashed := True\<rparr>
             | Some out \<Rightarrow>
                 (let p' = p\<lparr>replies := replies p @ [(data, out)]\<rparr>
                  in case reply_err of None \<Rightarrow> p' | Some err \<Rightarrow> Println err p')))"

text \<open>The next statement of caller \<open>t\<close> of \<open>Listen\<close>; \<open>opened\<close> is the error of \<open>ListenTask\<close>.\<close>

definition listen_step :: "nat \<Rightarrow> error option \<Rightarrow> process \<Rightarrow> process option" where
  "listen_step t opened p =
     (case listeners p t of
        L_idle \<Rightarrow> None
      | L_start \<Rightarrow>
          (if ml (svc p) = None
           then Some (p\<lparr>svc := (svc p)\<lparr>ml := Some (Listener t)\<rparr>,
                        listeners := (listeners p)(t := L_locked)\<rparr>)
           else None)
      | L_locked \<Rightarrow>
          Some (p\<lparr>listeners := (listeners p)(t := (if isListening (svc p) then L_reject else L_enter))\<rparr>)
      | L_reject \<Rightarrow>
          Some (p\<lparr>svc := (svc p)\<lparr>ml := None\<rparr>, listeners := (listeners p)(t := L_rejected)\<rparr>)
      | L_rejected \<Rightarrow> None
      | L_enter \<Rightarrow>
          Some (p\<lparr>svc := (svc p)\<lparr>isListening := True\<rparr>, listeners := (listeners p)(t := L_flagged)\<rparr>)
      | L_flagged \<Rightarrow>
          Some (p\<lparr>svc := (svc p)\<lparr>ml := None\<rparr>, listeners := (listeners p)(t := L_tasks)\<rparr>)
      | L_tasks \<Rightarrow>
          (case largs p t of
             None \<Rightarrow> None
           | Some (task, tasks) \<Rightarrow>
               Some (p\<lparr>svc := (svc p)\<lparr>taskables := tasks @ [task]\<rparr>,
                        listeners := (listeners p)(t := L_validate)\<rparr>))
      | L_validate \<Rightarrow>
          (case validateTasks (svc p) of
             Some err \<Rightarrow> Some (p\<lparr>listeners := (listeners p)(t := L_ret (Some err))\<rparr>)
           | None \<Rightarrow> Some (p\<lparr>listeners := (listeners p)(t := L_listen)\<rparr>))
      | L_listen \<Rightarrow>
          (if mc (svc p) = None
           then Some (p\<lparr>svc := (svc p)\<lparr>mc := Some (Listener t)\<rparr>,
                        listeners := (listeners p)(t := L_mc)\<rparr>)
           else None)
      | L_mc \<Rightarrow>
          Some (p\<lparr>svc := (svc p)\<lparr>cancel := Some CancelCtx\<rparr>, listeners := (listeners p)(t := L_ctx)\<rparr>)
      | L_ctx \<Rightarrow>
          Some (p\<lparr>svc := (svc p)\<lparr>mc := None\<rparr>, listeners := (listeners p)(t := L_open)\<rparr>)
      | L_open \<Rightarrow>
          (if client (svc p) = None
           then Some (p\<lparr>listeners := (listeners p)(t := L_panic)\<rparr>)
           else case opened of
                  Some err \<Rightarrow> Some (p\<lparr>listeners := (listeners p)(t := L_ret (Some err))\<rparr>)
                | None \<Rightarrow> Some (p\<lparr>errC := Some t, listeners := (listeners p)(t := L_opened)\<rparr>))
      | L_opened \<Rightarrow>
          Some (p\<lparr>watcher := W_wait, listeners := (listeners p)(t := L_watched)\<rparr>)
      | L_watched \<Rightarrow>
          Some (p\<lparr>loop := R_add, listeners := (listeners p)(t := L_wait)\<rparr>)
      | L_wait \<Rightarrow> None
      | L_ret v \<Rightarrow> None
      | L_panic \<Rightarrow> None)"

text \<open>
  A send on the unbuffered \<open>errC\<close> completes only together with the receive of the caller
  blocked in \<open>return <-errC\<close>, which then returns the value.
\<close>

definition send_errC :: "error option \<Rightarrow> process \<Rightarrow> process option" where
  "send_errC v p =
     (case errC p of
        None \<Rightarrow> None
      | Some t \<Rightarrow>
          (if listeners p t = L_wait
           then Some (p\<lparr>listeners := (listeners p)(t := L_ret v)\<rparr>)
           else None))"

definition watcher_step :: "process \<Rightarrow> process option" where
  "watcher_step p =
     (case watcher p of
        W_none \<Rightarrow> None
      | W_wait \<Rightarrow>
          (if ctx_done p \<or> stream_over p
           then Some (p\<lparr>watcher := W_send (stream_ctx_err p)\<rparr>)
           else None)
      | W_send v \<Rightarrow>
          (case send_errC v p of
             None \<Rightarrow> None
           | Some p' \<Rightarrow> Some (p'\<lparr>watcher := W_exit\<rparr>))
      | W_exit \<Rightarrow> None)"

text \<open>The next statement of the receive loop; \<open>received\<close> is what \<open>stream.Recv()\<close> returns.\<close>

definition loop_step :: "error + TaskData \<Rightarrow> process \<Rightarrow> process option" where
  "loop_step received p =
     (case loop p of
        R_none \<Rightarrow> None
      | R_add \<Rightarrow> Some ((wg_Add 1 p)\<lparr>loop := R_recv\<rparr>)
      | R_recv \<Rightarrow>
          (case received of
             Inl err \<Rightarrow> Some (p\<lparr>loop := R_fail err\<rparr>)
           | Inr data \<Rightarrow> Some (p\<lparr>loop := R_go data\<rparr>))
      | R_go data \<Rightarrow> Some (p\<lparr>spawned := spawned p @ [(data, False)], loop := R_add\<rparr>)
      | R_fail err \<Rightarrow> Some ((wg_Done p)\<lparr>loop := R_check err\<rparr>)
      | R_check err \<Rightarrow>
          Some (p\<lparr>loop := R_send (if closing (svc p) then None else Some err)\<rparr>)
      | R_send v \<Rightarrow>
          (case send_errC v p of
             None \<Rightarrow> None
           | Some p' \<Rightarrow> Some (p'\<lparr>loop := R_exit\<rparr>))
      | R_exit \<Rightarrow> None)"

text \<open>Goroutine \<open>i\<close> of \<open>spawned\<close> runs \<open>executeTask\<close>.\<close>

definition execute_step :: "nat \<Rightarrow> error option \<Rightarrow> process \<Rightarrow> process option" where
  "execute_step i reply_err p =
     (if i < length (spawned p) \<and> \<not> snd (spawned p ! i)
      then Some ((executeTask reply_err (fst (spawned p ! i)) p)
                   \<lparr>spawned := (spawned p)[i := (fst (spawned p ! i), True)]\<rparr>)
      else None)"

text \<open>The next statement of caller \<open>c\<close> of \<open>Close\<close>; \<open>released\<close> is what \<open>s.conn.Close()\<close> returns.\<close>

definition close_step :: "nat \<Rightarrow> error option \<Rightarrow> process \<Rightarrow> process option" where
  "close_step c released p =
     (case closers p c of
        C_idle \<Rightarrow>
          (if mc (svc p) = None
           then Some (p\<lparr>svc := (svc p)\<lparr>mc := Some (Closer c)\<rparr>,
                        closers := (closers p)(c := C_locked)\<rparr>)
           else None)
      | C_locked \<Rightarrow>
          Some (p\<lparr>svc := (svc p)\<lparr>closing := True\<rparr>, closers := (closers p)(c := C_closing)\<rparr>)
      | C_closing \<Rightarrow>
          (case cancel (svc p) of
             None \<Rightarrow>
               Some (p\<lparr>svc := (svc p)\<lparr>mc := None\<rparr>, closers := (closers p)(c := C_panic)\<rparr>)
           | Some CancelCtx \<Rightarrow>
               Some (p\<lparr>ctx_done := True, closers := (closers p)(c := C_wait)\<rparr>))
      | C_wait \<Rightarrow>
          (if gracefulWait (svc p) = 0
           then Some (p\<lparr>closers := (closers p)(c := C_conn)\<rparr>)
           else None)
      | C_conn \<Rightarrow>
          (case conn (svc p) of
             None \<Rightarrow>
               Some (p\<lparr>svc := (svc p)\<lparr>mc := None\<rparr>, closers := (closers p)(c := C_panic)\<rparr>)
           | Some cn \<Rightarrow>
               Some (p\<lparr>svc := (svc p)\<lparr>conn := Some (cn\<lparr>closes := closes cn + 1\<rparr>)\<rparr>,
                        closers := (closers p)(c := C_unlock released)\<rparr>))
      | C_unlock r \<Rightarrow>
          Some (p\<lparr>svc := (svc p)\<lparr>mc := None\<rparr>, closers := (closers p)(c := C_ret r)\<rparr>)
      | C_ret r \<Rightarrow> None
      | C_panic \<Rightarrow> None)"

datatype action =
    Listen_call nat Taskable "Taskable list"
  | Listen_step nat "error option"
  | Watcher_step
  | Loop_step "error + TaskData"
  | Execute_step nat "error option"
  | Close_step nat "error option"
  | Stream_over

text \<open>One action; \<open>None\<close> when the goroutine is blocked, has ended, or the process crashed.\<close>

definition step :: "action \<Rightarrow> process \<Rightarrow> process option" where
  "step a p =
     (if crashed p then None
      else case a of
        Listen_call t task tasks \<Rightarrow>
          (if listeners p t = L_idle
           then Some (p\<lparr>listeners := (listeners p)(t := L_start),
                        largs := (largs p)(t := Some (task, tasks))\<rparr>)
           else None)
      | Listen_step t opened \<Rightarrow> listen_step t opened p
      | Watcher_step \<Rightarrow> watcher_step p
      | Loop_step received \<Rightarrow> loop_step received p
      | Execute_step i reply_err \<Rightarrow> execute_step i reply_err p
      | Close_step c released \<Rightarrow> close_step c released p
      | Stream_over \<Rightarrow>
          (if errC p = None then None else Some (p\<lparr>stream_over := True\<rparr>)))"

fun run :: "action list \<Rightarrow> process \<Rightarrow> process option" where
  "run [] p = Some p"
| "run (a # as) p = (case step a p of None \<Rightarrow> None | Some p' \<Rightarrow> run as p')"

text \<open>
  The state \<open>New\<close> leaves the unexported fields in, whatever the options of this package
  that were given.
\<close>

definition pristine :: "Service \<Rightarrow> bool" where
  "pristine s \<longleftrightarrow>
     cancel s = None \<and> \<not> closing s \<and> mc s = None \<and> \<not> isListening s \<and> ml s = None
     \<and> gracefulWait s = 0"

text \<open>What a call of \<open>Listen\<close> has returned, if it has.\<close>

fun listen_result :: "listen_pc \<Rightarrow> error option option" where
  "listen_result L_rejected = Some (Some ErrAlreadyListening)"
| "listen_result (L_ret v) = Some v"
| "listen_result pc = None"

section \<open>Positions and invariants\<close>

text \<open>The caller holds \<open>ml\<close>.\<close>

fun holds_ml :: "listen_pc \<Rightarrow> bool" where
  "holds_ml L_locked = True"
| "holds_ml L_reject = True"
| "holds_ml L_enter = True"
| "holds_ml L_flagged = True"
| "holds_ml pc = False"

text \<open>The caller found \<open>s.isListening\<close> false: it is the call that goes on to listen.\<close>

fun passed :: "listen_pc \<Rightarrow> bool" where
  "passed L_idle = False"
| "passed L_start = False"
| "passed L_locked = False"
| "passed L_reject = False"
| "passed L_rejected = False"
| "passed pc = True"

text \<open>The caller has set \<open>s.isListening\<close>.\<close>

fun flagged :: "listen_pc \<Rightarrow> bool" where
  "flagged L_enter = False"
| "flagged pc = passed pc"

text \<open>The caller has stored \<open>s.cancel\<close>.\<close>

fun stored :: "listen_pc \<Rightarrow> bool" where
  "stored L_ctx = True"
| "stored L_open = True"
| "stored L_opened = True"
| "stored L_watched = True"
| "stored L_wait = True"
| "stored (L_ret v) = True"
| "stored L_panic = True"
| "stored pc = False"

fun has_errC :: "listen_pc \<Rightarrow> bool" where
  "has_errC L_opened = True"
| "has_errC L_watched = True"
| "has_errC L_wait = True"
| "has_errC (L_ret v) = True"
| "has_errC pc = False"

fun watching :: "listen_pc \<Rightarrow> bool" where
  "watching L_watched = True"
| "watching L_wait = True"
| "watching (L_ret v) = True"
| "watching pc = False"

fun looping :: "listen_pc \<Rightarrow> bool" where
  "looping L_wait = True"
| "looping (L_ret v) = True"
| "looping pc = False"

text \<open>
  The receive loop has done \<open>Add(1)\<close> and neither handed the unit to a started
  \<open>executeTask\<close> nor given it back with \<open>Done()\<close>.
\<close>

fun holding :: "loop_pc \<Rightarrow> bool" where
  "holding R_recv = True"
| "holding (R_go data) = True"
| "holding (R_fail err) = True"
| "holding pc = False"

text \<open>The receive loop has seen \<open>stream.Recv()\<close> fail.\<close>

fun stopped :: "loop_pc \<Rightarrow> bool" where
  "stopped (R_fail err) = True"
| "stopped (R_check err) = True"
| "stopped (R_send v) = True"
| "stopped R_exit = True"
| "stopped pc = False"

text \<open>\<open>Close\<close> has called \<open>s.cancel()\<close> without panicking.\<close>

fun past_cancel :: "close_pc \<Rightarrow> bool" where
  "past_cancel C_wait = True"
| "past_cancel C_conn = True"
| "past_cancel (C_unlock r) = True"
| "past_cancel (C_ret r) = True"
| "past_cancel pc = False"

text \<open>\<open>s.gracefulWait.Wait()\<close> has returned in this call of \<open>Close\<close>.\<close>

fun past_wait :: "close_pc \<Rightarrow> bool" where
  "past_wait C_conn = True"
| "past_wait (C_unlock r) = True"
| "past_wait (C_ret r) = True"
| "past_wait pc = False"

text \<open>\<open>s.conn.Close()\<close> has returned in this call of \<open>Close\<close>.\<close>

fun released :: "close_pc \<Rightarrow> bool" where
  "released (C_unlock r) = True"
| "released (C_ret r) = True"
| "released pc = False"

text \<open>The number of started \<open>executeTask\<close> goroutines that have not ended.\<close>

definition running :: "(TaskData \<times> bool) list \<Rightarrow> nat" where
  "running xs = length (filter (\<lambda>e. \<not> snd e) xs)"

definition listen_inv :: "process \<Rightarrow> bool" where
  "listen_inv p \<longleftrightarrow>
     (\<forall>t. holds_ml (listeners p t) \<longrightarrow> ml (svc p) = Some (Listener t))
     \<and> (\<forall>t. listeners p t = L_enter \<longrightarrow> \<not> isListening (svc p))
     \<and> (\<forall>t. flagged (listeners p t) \<or> listeners p t = L_reject \<or> listeners p t = L_rejected
            \<longrightarrow> isListening (svc p))
     \<and> (\<forall>t t'. passed (listeners p t) \<longrightarrow> passed (listeners p t') \<longrightarrow> t = t')"

definition flag_inv :: "process \<Rightarrow> bool" where
  "flag_inv p \<longleftrightarrow>
     (isListening (svc p) \<longrightarrow> (\<exists>t. flagged (listeners p t)))
     \<and> (cancel (svc p) \<noteq> None \<longrightarrow> (\<exists>t. stored (listeners p t)))"

text \<open>The caller that made \<open>errC\<close> stands at a position with the property \<open>P\<close>.\<close>

definition owner_at :: "(listen_pc \<Rightarrow> bool) \<Rightarrow> process \<Rightarrow> bool" where
  "owner_at P p = (case errC p of None \<Rightarrow> False | Some t \<Rightarrow> P (listeners p t))"

fun returned :: "listen_pc \<Rightarrow> bool" where
  "returned (L_ret v) = True"
| "returned pc = False"

fun spawning :: "listen_pc \<Rightarrow> bool" where
  "spawning L_opened = True"
| "spawning L_watched = True"
| "spawning L_wait = True"
| "spawning pc = False"

definition chan_inv :: "process \<Rightarrow> bool" where
  "chan_inv p \<longleftrightarrow>
     (\<forall>t. spawning (listeners p t) \<longrightarrow> errC p = Some t)
     \<and> (errC p \<noteq> None \<longrightarrow> owner_at has_errC p)
     \<and> (watcher p \<noteq> W_none \<longrightarrow> owner_at watching p)
     \<and> (loop p \<noteq> R_none \<longrightarrow> owner_at looping p)
     \<and> (watcher p = W_exit \<or> loop p = R_exit \<longrightarrow> owner_at returned p)
     \<and> \<not> (watcher p = W_exit \<and> loop p = R_exit)"

definition count_inv :: "process \<Rightarrow> bool" where
  "count_inv p \<longleftrightarrow>
     gracefulWait (svc p) = int (running (spawned p)) + (if holding (loop p) then 1 else 0)"

definition cancel_inv :: "process \<Rightarrow> bool" where
  "cancel_inv p \<longleftrightarrow>
     (\<forall>t. stored (listeners p t) \<longrightarrow> cancel (svc p) \<noteq> None)
     \<and> (\<forall>c. closers p c = C_closing \<or> past_cancel (closers p c) \<longrightarrow> closing (svc p))
     \<and> (\<forall>c. past_cancel (closers p c) \<longrightarrow> cancel (svc p) \<noteq> None \<and> ctx_done p)
     \<and> (\<forall>c. released (closers p c) \<longrightarrow> conn (svc p) \<noteq> None)"

definition invariant :: "process \<Rightarrow> bool" where
  "invariant p \<longleftrightarrow> listen_inv p \<and> flag_inv p \<and> chan_inv p \<and> count_inv p \<and> cancel_inv p"

section \<open>Properties of construction\<close>

lemma New_endpoint_empty:
  "endpoint (configure getenv options) = [] \<Longrightarrow>
     New getenv dial options = ((None, Some ErrEndpointNotSet), [])"
  by (simp add: New_def)

lemma New_token_empty:
  "endpoint (configure getenv options) \<noteq> [] \<Longrightarrow> token (configure getenv options) = [] \<Longrightarrow>
     New getenv dial options = ((None, Some ErrTokenNotSet), [])"
  by (simp add: New_def)

lemma New_dials_once:
  "endpoint (configure getenv options) \<noteq> [] \<Longrightarrow> token (configure getenv options) \<noteq> [] \<Longrightarrow>
     snd (New getenv dial options) =
       [\<lparr>dial_timeout = callTimeout (configure getenv options),
         dial_target = endpoint (configure getenv options),
         dial_opts = dialOptions (configure getenv options)\<rparr>]"
  by (simp add: New_def setupServiceClient_def Let_def split: sum.splits)

lemma configure_no_env: "configure no_env [] = defaults no_env"
  by (simp add: configure_def)

lemma configure_env_of: "configure (env_of e t) [] = defaults (env_of e t)"
  by (simp add: configure_def)

lemma env_of_simps:
  "env_of e t endpointEnv = e" "env_of e t tokenEnv = t"
  by (simp_all add: env_of_def endpointEnv_def tokenEnv_def)

text \<open>
  C8, as stated, fails: with neither endpoint nor token configured the token is empty, and
  \<open>New\<close> returns the endpoint-not-set error, not the token-not-set error.
\<close>

theorem New_token_error_counterexample:
  "token (configure no_env []) = []
   \<and> snd (fst (New no_env accept_dial [])) \<noteq> Some ErrTokenNotSet"
  by (simp add: New_def configure_no_env defaults_def no_env_def)

text \<open>
  C8, amended: \<open>New\<close> returns the endpoint-not-set error when the configured endpoint is
  empty, and the token-not-set error when the endpoint is not empty and the token is; in
  both cases no dial is made. When both are non-empty exactly one dial is made, to the
  configured endpoint.
\<close>

theorem New_configuration:
  "(endpoint (configure getenv options) = [] \<longrightarrow>
      New getenv dial options = ((None, Some ErrEndpointNotSet), []))
   \<and> (endpoint (configure getenv options) \<noteq> [] \<and> token (configure getenv options) = [] \<longrightarrow>
      New getenv dial options = ((None, Some ErrTokenNotSet), []))
   \<and> (endpoint (configure getenv options) \<noteq> [] \<and> token (configure getenv options) \<noteq> [] \<longrightarrow>
      snd (New getenv dial options) =
        [\<lparr>dial_timeout = callTimeout (configure getenv options),
          dial_target = endpoint (configure getenv options),
          dial_opts = dialOptions (configure getenv options)\<rparr>])"
  using New_endpoint_empty New_token_empty New_dials_once by blast

theorem New_configuration_witness:
  "New no_env refuse_dial [EndpointOption [], TokenOption ''service-id'']
     = ((None, Some ErrEndpointNotSet), [])
   \<and> New (env_of ''localhost:50052'' []) refuse_dial [] = ((None, Some ErrTokenNotSet), [])
   \<and> snd (New (env_of ''localhost:50052'' ''service-id'') accept_dial [TimeoutOption second])
     = [\<lparr>dial_timeout = second, dial_target = ''localhost:50052'',
         dial_opts = [WithKeepaliveParams (5 * minute), WithInsecure]\<rparr>]"
proof -
  have e1: "endpoint (configure no_env [EndpointOption [], TokenOption ''service-id'']) = []"
    by (simp add: configure_def EndpointOption_def TokenOption_def)
  have e2: "endpoint (configure (env_of ''localhost:50052'' []) []) \<noteq> []
            \<and> token (configure (env_of ''localhost:50052'' []) []) = []"
    by (simp add: configure_env_of defaults_def env_of_simps)
  have e3: "endpoint (configure (env_of ''localhost:50052'' ''service-id'') [TimeoutOption second]) \<noteq> []
            \<and> token (configure (env_of ''localhost:50052'' ''service-id'') [TimeoutOption second]) \<noteq> []"
    by (simp add: configure_def TimeoutOption_def defaults_def env_of_simps)
  have c3: "configure (env_of ''localhost:50052'' ''service-id'') [TimeoutOption second]
            = (defaults (env_of ''localhost:50052'' ''service-id''))\<lparr>callTimeout := second\<rparr>"
    by (simp add: configure_def TimeoutOption_def)
  show ?thesis
    using e1 e2 e3
      New_configuration [of no_env "[EndpointOption [], TokenOption ''service-id'']" refuse_dial]
      New_configuration [of "env_of ''localhost:50052'' []" "[]" refuse_dial]
      New_configuration [of "env_of ''localhost:50052'' ''service-id''" "[TimeoutOption second]" accept_dial]
    by (simp add: c3 defaults_def env_of_simps)
qed

end
